theory Spec2Isabelle
  imports Complex_Main
begin

section \<open>Python values and exceptions\<close>

text \<open>
  Every exception the modelled functions can raise is a value of \<open>error\<close>; a function that
  may raise returns \<open>error + 'a\<close>, with \<open>Inl\<close> for the exception. A \<open>ValueError\<close> carries
  the message of the source, since the two domain errors of \<open>from_string\<close> differ in it only.
\<close>

datatype error =
    IndexError
  | AssertionError
  | KeyError
  | ValueError string
  | TypeError
  | AttributeError
  | FileNotFoundError
  | OSError

text \<open>
  A code handed to \<open>from_string\<close> is a string of ASCII characters. \<open>isdigit\<close> and
  \<open>isalpha\<close> are \<open>str.isdigit\<close> and \<open>str.isalpha\<close> on one such character; \<open>int_str\<close> is
  \<open>int(s)\<close> on a string of decimal digits and \<open>str_int\<close> is \<open>str(i)\<close> on an integer.
\<close>

definition isdigit :: "char \<Rightarrow> bool" where
  "isdigit c = (48 \<le> (of_char c :: nat) \<and> (of_char c :: nat) \<le> 57)"

definition isalpha :: "char \<Rightarrow> bool" where
  "isalpha c = ((65 \<le> (of_char c :: nat) \<and> (of_char c :: nat) \<le> 90)
              \<or> (97 \<le> (of_char c :: nat) \<and> (of_char c :: nat) \<le> 122))"

definition digit_val :: "char \<Rightarrow> int" where
  "digit_val c = int (of_char c) - 48"

definition int_str :: "string \<Rightarrow> int" where
  "int_str s = foldl (\<lambda>a c. 10 * a + digit_val c) 0 s"

definition digit_char :: "nat \<Rightarrow> char" where
  "digit_char d = char_of (48 + d)"

fun str_nat :: "nat \<Rightarrow> string" where
  "str_nat n = (if n < 10 then [digit_char n] else str_nat (n div 10) @ [digit_char (n mod 10)])"

declare str_nat.simps [simp del]

definition str_int :: "int \<Rightarrow> string" where
  "str_int i = (if i < 0 then CHR ''-'' # str_nat (nat (- i)) else str_nat (nat i))"

section \<open>BuildData and its string codec\<close>

text \<open>
  Modelled from the spec: the enumerations \<open>InputType\<close> and \<open>OutputType\<close> of
  \<open>amaze.simu.types\<close> are declared outside the sources at hand. The specification gives
  both the members DISCRETE and CONTINUOUS, the two members \<open>robot.py\<close> refers to.
  \<open>InputType_members\<close> and \<open>OutputType_members\<close> are the enumerations iterated in
  declaration order, and \<open>InputType_name\<close>, \<open>OutputType_name\<close> the \<open>name\<close> of a member.
\<close>

datatype InputType = DISCRETE | CONTINUOUS

datatype OutputType = DISCRETE | CONTINUOUS

definition InputType_members :: "InputType list" where
  "InputType_members = [InputType.DISCRETE, InputType.CONTINUOUS]"

definition OutputType_members :: "OutputType list" where
  "OutputType_members = [OutputType.DISCRETE, OutputType.CONTINUOUS]"

fun InputType_name :: "InputType \<Rightarrow> string" where
  "InputType_name InputType.DISCRETE = ''DISCRETE''"
| "InputType_name InputType.CONTINUOUS = ''CONTINUOUS''"

fun OutputType_name :: "OutputType \<Rightarrow> string" where
  "OutputType_name OutputType.DISCRETE = ''DISCRETE''"
| "OutputType_name OutputType.CONTINUOUS = ''CONTINUOUS''"

text \<open>
  The documents that \<open>json\<close> writes and reads, which is what \<open>control_data\<close> holds and
  what a controller's \<open>infos\<close> is stored as. Neither \<open>robot.py\<close> nor \<open>control.py\<close> looks
  inside such a document.
\<close>

datatype json =
    JNull
  | JBool bool
  | JNum int
  | JStr string
  | JArr "json list"
  | JObj "(string \<times> json) list"

text \<open>
  The dataclass \<open>Robot.BuildData\<close>. Its generated \<open>__eq__\<close> compares the five fields, which
  is equality of the record. \<open>BuildData_init\<close> is \<open>cls()\<close>: the field defaults, with
  \<open>__post_init__\<close> lowering the already lower-case \<open>"random"\<close>.
\<close>

record BuildData =
  inputs :: InputType
  outputs :: OutputType
  vision :: int
  control :: string
  control_data :: "(string \<rightharpoonup> json) option"

definition BuildData_init :: BuildData where
  "BuildData_init =
     \<lparr>inputs = InputType.DISCRETE, outputs = OutputType.DISCRETE, vision = 15,
      control = ''random'', control_data = Some Map.empty\<rparr>"

text \<open>
  The four private tables. A dict comprehension keeps the last value written under a key,
  \<open>map_of\<close> the first pair of a list, hence the \<open>rev\<close>.
\<close>

definition inputs_to_string :: "InputType \<rightharpoonup> char" where
  "inputs_to_string = map_of (rev (map (\<lambda>i. (i, hd (InputType_name i))) InputType_members))"

definition outputs_to_string :: "OutputType \<rightharpoonup> char" where
  "outputs_to_string = map_of (rev (map (\<lambda>o'. (o', hd (OutputType_name o'))) OutputType_members))"

definition string_to_input :: "char \<rightharpoonup> InputType" where
  "string_to_input =
     map_of (rev (map (\<lambda>k. (the (inputs_to_string k), k)) InputType_members))"

definition string_to_output :: "char \<rightharpoonup> OutputType" where
  "string_to_output =
     map_of (rev (map (\<lambda>k. (the (outputs_to_string k), k)) OutputType_members))"

definition hybrid_msg :: string where
  "hybrid_msg =
     ''Incompatible hybrid mode. Agent cannot have discrete inputs and continuous outputs''"

definition retina_msg :: string where
  "retina_msg = ''Retina size must be odd''"

definition shorthands :: "string \<rightharpoonup> InputType \<times> OutputType" where
  "shorthands = map_of
     [(''D'', (InputType.DISCRETE, OutputType.DISCRETE)),
      (''H'', (InputType.CONTINUOUS, OutputType.DISCRETE)),
      (''C'', (InputType.CONTINUOUS, OutputType.CONTINUOUS))]"

text \<open>
  \<open>from_string_types bd io\<close> is the \<open>if len(io) == 1: ... else: ...\<close> statement of
  \<open>from_string\<close>: it fills \<open>inputs\<close> and \<open>outputs\<close> from the type letters \<open>io\<close>.
  A missing dictionary key raises \<open>KeyError\<close>, an index past the end of \<open>io\<close>
  \<open>IndexError\<close>.
\<close>

definition from_string_types :: "BuildData \<Rightarrow> string \<Rightarrow> error + BuildData" where
  "from_string_types bd io =
     (if length io = 1 then
        (case shorthands io of
           None \<Rightarrow> Inl KeyError
         | Some (i, o') \<Rightarrow> Inr (bd\<lparr>inputs := i, outputs := o'\<rparr>))
      else if length io \<le> 0 then Inl IndexError
      else
        (case string_to_input (io ! 0) of
           None \<Rightarrow> Inl KeyError
         | Some i \<Rightarrow>
            if length io \<le> 1 then Inl IndexError
            else
              (case string_to_output (io ! 1) of
                 None \<Rightarrow> Inl KeyError
               | Some o' \<Rightarrow>
                   if i = InputType.DISCRETE \<and> o' = OutputType.CONTINUOUS
                   then Inl (ValueError hybrid_msg)
                   else Inr (bd\<lparr>inputs := i, outputs := o'\<rparr>))))"

text \<open>
  \<open>Robot.BuildData.from_string\<close>. Reading \<open>robot[0]\<close> or \<open>robot[1]\<close> past the end of the
  string raises \<open>IndexError\<close>; the slices \<open>robot[2:]\<close>, \<open>robot[0:ix]\<close> and \<open>robot[ix:]\<close>
  never raise. The chained comparison \<open>ix < len(robot) > 2\<close> is the conjunction of
  \<open>ix < len(robot)\<close> and \<open>len(robot) > 2\<close>.
\<close>

definition from_string :: "string \<Rightarrow> error + BuildData" where
  "from_string robot =
     (let bd = BuildData_init in
      if length robot \<le> 0 then Inl IndexError
      else if robot ! 0 \<notin> set [CHR ''D'', CHR ''C'', CHR ''H''] then Inl AssertionError
      else if length robot \<le> 1 then Inl IndexError
      else if \<not> (robot ! 1 \<in> set [CHR ''D'', CHR ''C''] \<or> isdigit (robot ! 1))
        then Inl AssertionError
      else if \<not> list_all isdigit (drop 2 robot) then Inl AssertionError
      else
        let ix = 1 + (if isalpha (robot ! 1) then 1 else 0);
            io = take ix robot
        in case from_string_types bd io of
             Inl e \<Rightarrow> Inl e
           | Inr bd \<Rightarrow>
               if inputs bd = InputType.CONTINUOUS \<and> ix < length robot \<and> length robot > 2
               then
                 let bd = bd\<lparr>vision := int_str (drop ix robot)\<rparr>
                 in if vision bd mod 2 \<noteq> 1 then Inl (ValueError retina_msg) else Inr bd
               else Inr bd)"

text \<open>\<open>Robot.BuildData.to_string\<close>.\<close>

definition to_string :: "BuildData \<Rightarrow> error + string" where
  "to_string self =
     (case inputs_to_string (inputs self) of
        None \<Rightarrow> Inl KeyError
      | Some ic \<Rightarrow>
         (case outputs_to_string (outputs self) of
            None \<Rightarrow> Inl KeyError
          | Some oc \<Rightarrow>
              let s = [ic] @ [oc]
              in Inr (if inputs self = InputType.CONTINUOUS then s @ str_int (vision self) else s)))"

text \<open>
  The invariant the specification puts on a BuildData: the pair of DISCRETE inputs with
  CONTINUOUS outputs is illegal, and the vision size is a positive odd integer.
\<close>

definition valid_BuildData :: "BuildData \<Rightarrow> bool" where
  "valid_BuildData b =
     (\<not> (inputs b = InputType.DISCRETE \<and> outputs b = OutputType.CONTINUOUS)
      \<and> 0 < vision b \<and> vision b mod 2 = 1)"

section \<open>Robot kinematics\<close>

text \<open>
  Modelled from the spec: \<open>Vec\<close> and \<open>Pos\<close> of \<open>amaze.simu.pos\<close> are declared outside the
  sources at hand. The specification calls them 2D vectors; they are pairs of coordinates
  here, with the componentwise product by a number, the componentwise sum and the
  Euclidean length. Python floats are idealised as real numbers, so every coordinate and
  every \<open>dt\<close> is a finite number.
\<close>

type_synonym Vec = "real \<times> real"

definition Vec_null :: Vec where
  "Vec_null = (0, 0)"

definition Vec_scale :: "real \<Rightarrow> Vec \<Rightarrow> Vec" where
  "Vec_scale k v = (k * fst v, k * snd v)"

definition Vec_add :: "Vec \<Rightarrow> Vec \<Rightarrow> Vec" where
  "Vec_add u v = (fst u + fst v, snd u + snd v)"

definition Vec_length :: "Vec \<Rightarrow> real" where
  "Vec_length v = sqrt ((fst v)\<^sup>2 + (snd v)\<^sup>2)"

definition RADIUS :: real where
  "RADIUS = 0.1"

definition INERTIAL_LOSS :: real where
  "INERTIAL_LOSS = 0.5"

definition ACCELERATION_SCALE :: real where
  "ACCELERATION_SCALE = 0.5"

text \<open>
  The attributes of a \<open>Robot\<close>. \<open>__init__\<close> sets all but \<open>data\<close> to \<open>None\<close>, so each is an
  option; \<open>reset\<close> fills them.
\<close>

record Robot =
  data :: BuildData
  pos :: "Vec option"
  prev_cell :: "(int \<times> int) option"
  vel :: "Vec option"
  acc :: "Vec option"
  reward :: "real option"

definition Robot_init :: "BuildData \<Rightarrow> Robot" where
  "Robot_init d =
     \<lparr>data = d, pos = None, prev_cell = None, vel = None, acc = None, reward = None\<rparr>"

text \<open>
  \<open>Robot.reset\<close>. Modelled from the spec: \<open>Pos.aligned\<close> is declared outside the sources at
  hand and the specification leaves open whether it rounds or truncates, so the function
  that aligns a position to its cell is the parameter \<open>aligned\<close>. The argument is a
  position by its type, which is what the assertion of the source asks.
\<close>

definition reset :: "(Vec \<Rightarrow> int \<times> int) \<Rightarrow> Robot \<Rightarrow> Vec \<Rightarrow> Robot" where
  "reset aligned self p =
     self\<lparr>pos := Some p, prev_cell := Some (aligned p), vel := Some Vec_null,
          acc := Some Vec_null, reward := Some 0\<rparr>"

text \<open>
  \<open>Robot.next_position\<close>, returning the result and the robot after the call. The product of
  a number with \<open>None\<close> and the sum of \<open>None\<close> with a vector raise \<open>TypeError\<close>; the
  assignments made before the exception stay.
\<close>

definition next_position :: "Robot \<Rightarrow> Vec \<Rightarrow> real \<Rightarrow> (error + Vec) \<times> Robot" where
  "next_position self action dt =
     (let self = self\<lparr>acc := Some (Vec_scale ACCELERATION_SCALE action)\<rparr>
      in case (vel self, acc self) of
           (Some v, Some a) \<Rightarrow>
             let self = self\<lparr>vel := Some (Vec_add (Vec_scale (1 - INERTIAL_LOSS * dt) v)
                                                    (Vec_scale dt a))\<rparr>;
                 self = (if Vec_length (the (vel self)) < min 0.01 (ACCELERATION_SCALE / 2)
                         then self\<lparr>vel := Some Vec_null\<rparr> else self)
             in (case (pos self, vel self) of
                   (Some p, Some v') \<Rightarrow> (Inr (Vec_add p (Vec_scale dt v')), self)
                 | _ \<Rightarrow> (Inl TypeError, self))
         | _ \<Rightarrow> (Inl TypeError, self))"

section \<open>Controller registry and persistence\<close>

text \<open>
  Modelled from the spec: \<open>BaseController\<close> and the three controller classes that
  \<open>control.py\<close> imports are declared outside the sources at hand. A class object is its
  name and the list of its base classes, and \<open>issubclass\<close> follows the bases. The three
  registered classes derive from \<open>BaseController\<close>, the type \<open>control.py\<close> annotates a
  controller with.
\<close>

datatype pyclass = Class string "pyclass list"

fun issubclass :: "pyclass \<Rightarrow> pyclass \<Rightarrow> bool" where
  "issubclass (Class n bases) t = (Class n bases = t \<or> list_ex (\<lambda>b. issubclass b t) bases)"

definition BaseController :: pyclass where
  "BaseController = Class ''BaseController'' []"

definition RandomController :: pyclass where
  "RandomController = Class ''RandomController'' [BaseController]"

definition KeyboardController :: pyclass where
  "KeyboardController = Class ''KeyboardController'' [BaseController]"

definition TabularController :: pyclass where
  "TabularController = Class ''TabularController'' [BaseController]"

text \<open>
  The values a controller's \<open>infos\<close> is built from, as far as \<open>json\<close> tells them apart:
  \<open>None\<close>, booleans, integers, strings, lists, tuples, dictionaries, and \<open>PyObject n\<close>, an
  instance of some other class \<open>n\<close>, which \<open>json\<close> refuses to write and which has none of
  the methods of a dictionary. A dictionary is the list of its items in insertion order;
  its keys are strings, integers, \<open>None\<close>, or \<open>KObject n\<close>, a hashable object of another
  class such as a tuple. Floats are left out, as are boolean keys.
\<close>

datatype pykey = KStr string | KInt int | KNone | KObject string

datatype pyval =
    PyNone
  | PyBool bool
  | PyInt int
  | PyStr string
  | PyList "pyval list"
  | PyTuple "pyval list"
  | PyDict "(pykey \<times> pyval) list"
  | PyObject string

text \<open>
  \<open>dict_set d k v\<close> is the assignment \<open>d[k] = v\<close>: a key already present keeps its place and
  takes the new value, a new key goes last. \<open>dict_update d m\<close> is \<open>d.update(m)\<close> on a copy
  of \<open>d\<close>, which assigns the items of \<open>m\<close> in their order.
\<close>

fun dict_set :: "(pykey \<times> pyval) list \<Rightarrow> pykey \<Rightarrow> pyval \<Rightarrow> (pykey \<times> pyval) list" where
  "dict_set [] k v = [(k, v)]"
| "dict_set ((k', v') # d) k v =
     (if k' = k then (k', v) # d else (k', v') # dict_set d k v)"

definition dict_update ::
  "(pykey \<times> pyval) list \<Rightarrow> (pykey \<times> pyval) list \<Rightarrow> (pykey \<times> pyval) list" where
  "dict_update d m = foldl (\<lambda>d (k, v). dict_set d k v) d m"

text \<open>
  \<open>to_json\<close> is the document that \<open>json.dumps\<close> writes for a value, with the default
  options: a tuple is written as an array like a list, every key of a dictionary is
  written as a string (\<open>key_text\<close>), and an object of another class, as a value or as a
  key, raises \<open>TypeError\<close>. \<open>of_json\<close> is the value that \<open>json.loads\<close> builds from a
  document: an array gives a list, an object gives a dictionary with string keys in which
  the last of two members of the same name wins.
\<close>

fun key_text :: "pykey \<Rightarrow> error + string" where
  "key_text (KStr s) = Inr s"
| "key_text (KInt i) = Inr (str_int i)"
| "key_text KNone = Inr ''null''"
| "key_text (KObject n) = Inl TypeError"

fun to_json :: "pyval \<Rightarrow> error + json"
  and to_json_list :: "pyval list \<Rightarrow> error + json list"
  and to_json_items :: "(pykey \<times> pyval) list \<Rightarrow> error + (string \<times> json) list" where
  "to_json PyNone = Inr JNull"
| "to_json (PyBool b) = Inr (JBool b)"
| "to_json (PyInt i) = Inr (JNum i)"
| "to_json (PyStr s) = Inr (JStr s)"
| "to_json (PyList xs) =
     (case to_json_list xs of Inl e \<Rightarrow> Inl e | Inr js \<Rightarrow> Inr (JArr js))"
| "to_json (PyTuple xs) =
     (case to_json_list xs of Inl e \<Rightarrow> Inl e | Inr js \<Rightarrow> Inr (JArr js))"
| "to_json (PyDict d) =
     (case to_json_items d of Inl e \<Rightarrow> Inl e | Inr js \<Rightarrow> Inr (JObj js))"
| "to_json (PyObject n) = Inl TypeError"
| "to_json_list [] = Inr []"
| "to_json_list (x # xs) =
     (case to_json x of
        Inl e \<Rightarrow> Inl e
      | Inr j \<Rightarrow>
         (case to_json_list xs of Inl e \<Rightarrow> Inl e | Inr js \<Rightarrow> Inr (j # js)))"
| "to_json_items [] = Inr []"
| "to_json_items ((k, v) # d) =
     (case key_text k of
        Inl e \<Rightarrow> Inl e
      | Inr s \<Rightarrow>
         (case to_json v of
            Inl e \<Rightarrow> Inl e
          | Inr j \<Rightarrow>
             (case to_json_items d of Inl e \<Rightarrow> Inl e | Inr js \<Rightarrow> Inr ((s, j) # js))))"



text \<open>
  What \<open>control.py\<close> reads of a controller: its concrete class \<open>type(controller)\<close>, its
  attribute \<open>infos\<close>, and the state that only the controller's own serialization looks at.
\<close>

record controller =
  ctype :: pyclass
  infos :: pyval
  internals :: json

text \<open>
  The bytes of an archive entry are the UTF-8 coding of a text (\<open>Bytes\<close>) or of the text
  of a \<open>json\<close> document (\<open>JsonBytes\<close>); the text of a document is kept as the document it
  denotes. An open \<open>ZipFile\<close> is the map from entry names to their bytes: \<open>writestr\<close>
  stores under a name, keeping the last data written under it, and \<open>read\<close> raises
  \<open>KeyError\<close> on a name that is absent. The file system maps the path string handed to the
  operating system to the archive stored there.
\<close>

datatype bytes = Bytes string | JsonBytes json

type_synonym archive = "string \<rightharpoonup> bytes"

type_synonym filesystem = "string \<rightharpoonup> archive"

text \<open>
  The \<open>path\<close> argument is annotated \<open>Union[Path, str]\<close>. A \<open>pathlib.Path\<close> is its anchor
  and the list of its further parts; its \<open>name\<close> is the last part, empty when there is
  none. \<open>Path_suffix\<close> and \<open>with_suffix\<close> are the property and method of \<open>pathlib\<close>, the
  latter for a well-formed suffix such as \<open>".zip"\<close>. A \<open>str\<close> has neither.
\<close>

datatype pathlike = Path string "string list" | Str string

fun join :: "string list \<Rightarrow> string" where
  "join [] = []"
| "join [p] = p"
| "join (p # ps) = p @ ''/'' @ join ps"

fun fspath :: "pathlike \<Rightarrow> string" where
  "fspath (Str s) = s"
| "fspath (Path anchor parts) =
     (if anchor = [] \<and> parts = [] then ''.'' else anchor @ join parts)"

definition rfind :: "string \<Rightarrow> char \<Rightarrow> int" where
  "rfind s c =
     (if c \<in> set s then int (length s) - 1 - int (length (takeWhile (\<lambda>x. x \<noteq> c) (rev s)))
      else - 1)"

definition Path_name :: "string list \<Rightarrow> string" where
  "Path_name parts = (if parts = [] then [] else last parts)"

definition Path_suffix :: "string list \<Rightarrow> string" where
  "Path_suffix parts =
     (let name = Path_name parts; i = rfind name CHR ''.''
      in if 0 < i \<and> i < int (length name) - 1 then drop (nat i) name else [])"

definition with_suffix :: "string \<Rightarrow> string list \<Rightarrow> string \<Rightarrow> error + pathlike" where
  "with_suffix anchor parts suffix =
     (let name = Path_name parts
      in if name = [] then Inl (ValueError ''has an empty name'')
         else
           let old_suffix = Path_suffix parts;
               name = (if old_suffix = [] then name @ suffix
                       else take (length name - length old_suffix) name @ suffix)
           in Inr (Path anchor (butlast parts @ [name])))"

text \<open>
  What \<open>control.py\<close> calls and does not define: the content of the dictionary
  \<open>CONTROLLERS\<close> at the time of the call (its items in insertion order, extensions may
  have added theirs), the method \<open>save_to_archive\<close> of a controller, which returns the
  archive it wrote to and the exception it raised if any, the class method
  \<open>load_from_archive\<close> of a registered class, whether the operating system lets a file be
  created or replaced at a path string (\<open>can_write\<close>), and the concrete syntax of \<open>json\<close>:
  the text of a document (\<open>json_text\<close>) and the document, if any, that a text denotes
  (\<open>json_parse\<close>). The syntax matters only where an entry written as text is read as a
  document, or the other way round.
\<close>

record runtime =
  registry :: "(string \<times> pyclass) list"
  save_to_archive :: "controller \<Rightarrow> archive \<Rightarrow> error option \<times> archive"
  load_from_archive :: "pyclass \<Rightarrow> archive \<Rightarrow> error + controller"
  can_write :: "string \<Rightarrow> bool"
  json_text :: "json \<Rightarrow> string"
  json_parse :: "string \<Rightarrow> error + json"

text \<open>
  \<open>json_dumps v\<close> is \<open>json.dumps(v).encode("utf-8")\<close>, \<open>decode rt b\<close> is
  \<open>b.decode("utf-8")\<close> and \<open>json_loads rt b\<close> is \<open>json.loads(b.decode("utf-8"))\<close>.
\<close>

definition json_dumps :: "pyval \<Rightarrow> error + bytes" where
  "json_dumps v = (case to_json v of Inl e \<Rightarrow> Inl e | Inr j \<Rightarrow> Inr (JsonBytes j))"



text \<open>The dictionary \<open>CONTROLLERS\<close> as \<open>control.py\<close> creates it.\<close>

definition CONTROLLERS :: "(string \<times> pyclass) list" where
  "CONTROLLERS =
     [(''random'', RandomController), (''keyboard'', KeyboardController),
      (''tabular'', TabularController)]"

text \<open>
  \<open>reverse_map\<close> is the dict comprehension \<open>{t: n for n, t in CONTROLLERS.items()}\<close>, in
  which a class registered under two names keeps the later one. Its keys are class
  objects, so a look-up finds a class only if this very class is a value of the registry.
\<close>

definition reverse_map :: "(string \<times> pyclass) list \<Rightarrow> (pyclass \<rightharpoonup> string)" where
  "reverse_map reg = map_of (rev (map (\<lambda>(n, t). (t, n)) reg))"

text \<open>
  The statement \<open>if path.suffix != ".zip": path = path.with_suffix(".zip")\<close> of \<open>save\<close>.
\<close>

definition zip_suffix :: "pathlike \<Rightarrow> error + pathlike" where
  "zip_suffix path =
     (case path of
        Str s \<Rightarrow> Inl AttributeError
      | Path anchor parts \<Rightarrow>
          if Path_suffix parts \<noteq> ''.zip'' then with_suffix anchor parts ''.zip'' else Inr path)"

text \<open>
  \<open>save\<close>, returning the result and the file system after the call. The argument \<open>infos'\<close>
  is the parameter \<open>infos\<close> of the source, \<open>None\<close> when the caller omits it and a
  dictionary otherwise, and \<open>infos1\<close> is the local \<open>_infos\<close>. \<open>ZipFile(path, "w")\<close> raises
  \<open>OSError\<close> where the file cannot be created, and starts from the empty archive where it
  can. \<open>dict.update(None)\<close> raises \<open>TypeError\<close>, and a controller whose \<open>infos\<close> is not a
  dictionary lacks \<open>copy\<close> or \<open>update\<close>. An exception inside the \<open>with\<close> block closes the
  archive, which keeps the entries written so far.
\<close>

definition save ::
  "runtime \<Rightarrow> controller \<Rightarrow> pathlike \<Rightarrow> (pykey \<times> pyval) list option \<Rightarrow> filesystem
     \<Rightarrow> (error + pathlike) \<times> filesystem" where
  "save rt controller path infos' fs =
     (case reverse_map (registry rt) (ctype controller) of
        None \<Rightarrow> (Inl AssertionError, fs)
      | Some controller_class \<Rightarrow>
         (case zip_suffix path of
            Inl e \<Rightarrow> (Inl e, fs)
          | Inr path \<Rightarrow>
             if \<not> can_write rt (fspath path) then (Inl OSError, fs)
             else
               let archive = Map.empty(''controller_class'' \<mapsto> Bytes controller_class)
               in (case save_to_archive rt controller archive of
                     (Some e, archive) \<Rightarrow> (Inl e, fs(fspath path \<mapsto> archive))
                   | (None, archive) \<Rightarrow>
                       (case infos controller of
                          PyDict infos1 \<Rightarrow>
                            (case infos' of
                               None \<Rightarrow> (Inl TypeError, fs(fspath path \<mapsto> archive))
                             | Some m \<Rightarrow>
                                 let infos1 = dict_update infos1 m
                                 in (case json_dumps (PyDict infos1) of
                                       Inl e \<Rightarrow> (Inl e, fs(fspath path \<mapsto> archive))
                                     | Inr bytes \<Rightarrow>
                                         (Inr path,
                                          fs(fspath path \<mapsto> archive(''infos'' \<mapsto> bytes)))))
                        | _ \<Rightarrow> (Inl AttributeError, fs(fspath path \<mapsto> archive))))))"


text \<open>
  A runtime to evaluate \<open>save\<close> and \<open>load\<close> on: the registry of \<open>control.py\<close>, every path
  writable, controllers that write their state as one entry \<open>state\<close> and are read back
  from it with empty \<open>infos\<close>, and a \<open>json\<close> syntax that is never consulted, since these
  controllers write \<open>state\<close> as a document and read it as one. \<open>demo_controller cls\<close> is a
  controller of class \<open>cls\<close> with two \<open>infos\<close> of its own.
\<close>

definition demo_runtime :: runtime where
  "demo_runtime =
     \<lparr>registry = CONTROLLERS,
      save_to_archive = (\<lambda>c a. (None, a(''state'' \<mapsto> JsonBytes (internals c)))),
      load_from_archive =
        (\<lambda>cls a. case a ''state'' of
                    Some (JsonBytes j) \<Rightarrow> Inr \<lparr>ctype = cls, infos = PyDict [], internals = j\<rparr>
                  | _ \<Rightarrow> Inl KeyError),
      can_write = (\<lambda>p. True),
      json_text = (\<lambda>j. []),
      json_parse = (\<lambda>s. Inl (ValueError ''Expecting value''))\<rparr>"

definition demo_controller :: "pyclass \<Rightarrow> controller" where
  "demo_controller cls =
     \<lparr>ctype = cls,
      infos = PyDict [(KStr ''algo'', PyStr ''none''), (KStr ''vision'', PyInt 15)],
      internals = JArr [JNum 0, JNum 1]\<rparr>"

section \<open>Facts about the codec\<close>

lemma isdigit_simps:
  "isdigit CHR ''0''" "isdigit CHR ''1''" "isdigit CHR ''2''" "isdigit CHR ''3''"
  "isdigit CHR ''4''" "isdigit CHR ''5''" "isdigit CHR ''6''" "isdigit CHR ''7''"
  "isdigit CHR ''8''" "isdigit CHR ''9''"
  "\<not> isdigit CHR ''D''" "\<not> isdigit CHR ''C''" "\<not> isdigit CHR ''H''"
  by (simp_all add: isdigit_def)

lemma isalpha_simps:
  "isalpha CHR ''D''" "isalpha CHR ''C''" "isalpha CHR ''H''"
  by (simp_all add: isalpha_def)

lemma isdigit_not_isalpha: "isdigit c \<Longrightarrow> \<not> isalpha c"
  by (simp add: isdigit_def isalpha_def)

lemma tables_simps:
  "inputs_to_string InputType.DISCRETE = Some CHR ''D''"
  "inputs_to_string InputType.CONTINUOUS = Some CHR ''C''"
  "outputs_to_string OutputType.DISCRETE = Some CHR ''D''"
  "outputs_to_string OutputType.CONTINUOUS = Some CHR ''C''"
  "string_to_input CHR ''D'' = Some InputType.DISCRETE"
  "string_to_input CHR ''C'' = Some InputType.CONTINUOUS"
  "string_to_input CHR ''H'' = None"
  "string_to_output CHR ''D'' = Some OutputType.DISCRETE"
  "string_to_output CHR ''C'' = Some OutputType.CONTINUOUS"
  by (simp_all add: inputs_to_string_def outputs_to_string_def string_to_input_def
      string_to_output_def InputType_members_def OutputType_members_def)

text \<open>
  Claim C1. Each one-letter shorthand code, \<open>"D"\<close>, \<open>"H"\<close> and \<open>"C"\<close>, is said to parse to its
  pair of types with the default vision. The source reads \<open>robot[1]\<close> in its second
  assertion before it looks at the length of the code, so on a code of one character
  \<open>from_string\<close> raises \<open>IndexError\<close> and returns nothing.
\<close>

theorem from_string_one_letter_IndexError:
  "from_string ''D'' = Inl IndexError \<and> from_string ''H'' = Inl IndexError
   \<and> from_string ''C'' = Inl IndexError"
  by (simp add: from_string_def)


lemma int_str_snoc: "int_str (xs @ [c]) = 10 * int_str xs + digit_val c"
  by (simp add: int_str_def)

lemma digit_char_props:
  "d < 10 \<Longrightarrow> isdigit (digit_char d) \<and> digit_val (digit_char d) = int d"
  by (simp add: isdigit_def digit_val_def digit_char_def)

lemma str_nat_digits: "list_all isdigit (str_nat n)"
proof (induction n rule: str_nat.induct)
  case (1 n)
  show ?case
  proof (cases "n < 10")
    case True
    then show ?thesis by (simp add: digit_char_props str_nat.simps[of n])
  next
    case False
    have "n mod 10 < 10" by simp
    with False 1 show ?thesis by (simp add: digit_char_props str_nat.simps[of n])
  qed
qed

lemma str_nat_nonempty: "str_nat n \<noteq> []"
  by (subst str_nat.simps) simp

lemma int_str_str_nat: "int_str (str_nat n) = int n"
proof (induction n rule: str_nat.induct)
  case (1 n)
  show ?case
  proof (cases "n < 10")
    case True
    then show ?thesis by (simp add: digit_char_props int_str_def str_nat.simps[of n])
  next
    case False
    have m: "n mod 10 < 10" by simp
    have "int_str (str_nat n) =
        10 * int_str (str_nat (n div 10)) + digit_val (digit_char (n mod 10))"
      using False by (subst str_nat.simps) (simp add: int_str_snoc)
    also have "\<dots> = 10 * int (n div 10) + int (n mod 10)"
      using 1 False m by (simp add: digit_char_props)
    also have "\<dots> = int n" by presburger
    finally show ?thesis .
  qed
qed

lemma str_int_nonneg:
  assumes "0 \<le> v"
  shows "list_all isdigit (str_int v)" and "str_int v \<noteq> []" and "int_str (str_int v) = v"
  using assms by (simp_all add: str_int_def str_nat_digits str_nat_nonempty int_str_str_nat)

lemma from_string_types_frame:
  "from_string_types bd io = Inr bd' \<Longrightarrow>
     vision bd' = vision bd \<and> control bd' = control bd \<and> control_data bd' = control_data bd"
  by (auto simp: from_string_types_def split: if_splits option.splits)

lemma from_string_types_not_hybrid:
  "from_string_types bd io = Inr bd' \<Longrightarrow>
     \<not> (inputs bd' = InputType.DISCRETE \<and> outputs bd' = OutputType.CONTINUOUS)"
  by (auto simp: from_string_types_def shorthands_def split: if_splits option.splits)

text \<open>No code parses to the pair of DISCRETE inputs with CONTINUOUS outputs.\<close>

lemma from_string_never_hybrid:
  "from_string s = Inr b \<Longrightarrow>
     \<not> (inputs b = InputType.DISCRETE \<and> outputs b = OutputType.CONTINUOUS)"
  by (auto simp: from_string_def Let_def split: if_splits sum.splits
      dest!: from_string_types_not_hybrid)

text \<open>A code that parses to DISCRETE inputs has the default vision.\<close>

lemma from_string_DISCRETE_vision:
  "from_string s = Inr b \<Longrightarrow> inputs b = InputType.DISCRETE \<Longrightarrow> vision b = 15"
  by (auto simp: from_string_def Let_def BuildData_init_def split: if_splits sum.splits
      dest!: from_string_types_frame)

lemma from_string_DC_digits:
  "list_all isdigit ds \<Longrightarrow> from_string (''DC'' @ ds) = Inl (ValueError hybrid_msg)"
  by (simp add: from_string_def from_string_types_def isalpha_simps tables_simps)

lemma from_string_DD_digits:
  "list_all isdigit ds \<Longrightarrow> from_string (''DD'' @ ds) = Inr BuildData_init"
  by (simp add: from_string_def from_string_types_def isalpha_simps tables_simps
      BuildData_init_def)


text \<open>
  Where the vision is read: the pair form of a CONTINUOUS input followed by digits, and the
  shorthands \<open>C\<close> and \<open>H\<close> followed by at least two digits, which make a code longer than
  two characters. A shorthand followed by one digit only keeps the default vision.
\<close>

lemma from_string_C_pair:
  assumes "oc \<in> {CHR ''D'', CHR ''C''}" "list_all isdigit ds" "ds \<noteq> []"
  shows "from_string (CHR ''C'' # oc # ds) =
     (if int_str ds mod 2 \<noteq> 1 then Inl (ValueError retina_msg)
      else Inr (BuildData_init\<lparr>inputs := InputType.CONTINUOUS,
                 outputs := the (string_to_output oc), vision := int_str ds\<rparr>))"
proof -
  from assms(1) have a: "isalpha oc" and o: "string_to_output oc \<noteq> None"
    by (auto simp: isalpha_simps tables_simps)
  show ?thesis
    using a o assms
    by (auto simp: from_string_def from_string_types_def tables_simps BuildData_init_def)
qed

lemma from_string_shorthand_digits:
  assumes "c \<in> {CHR ''C'', CHR ''H''}" "list_all isdigit ds" "2 \<le> length ds"
  shows "from_string (c # ds) =
     (if int_str ds mod 2 \<noteq> 1 then Inl (ValueError retina_msg)
      else Inr (BuildData_init\<lparr>inputs := InputType.CONTINUOUS,
                 outputs := snd (the (shorthands [c])), vision := int_str ds\<rparr>))"
proof -
  from assms(3) obtain d ds' where ds: "ds = d # ds'" and n: "ds' \<noteq> []"
    by (cases ds) (auto simp: Suc_le_eq)
  with assms(2) have d: "isdigit d" "list_all isdigit ds'" by simp_all
  show ?thesis
    using assms(1) d n unfolding ds
    by (auto simp: from_string_def from_string_types_def shorthands_def isdigit_not_isalpha
        BuildData_init_def)
qed

lemma from_string_shorthand_one_digit:
  assumes "c \<in> {CHR ''C'', CHR ''H''}" "isdigit d"
  shows "from_string [c, d] =
     Inr (BuildData_init\<lparr>inputs := InputType.CONTINUOUS, outputs := snd (the (shorthands [c]))\<rparr>)"
  using assms
  by (auto simp: from_string_def from_string_types_def shorthands_def isdigit_not_isalpha
      BuildData_init_def)

lemma to_string_eq:
  "to_string b =
     Inr ([the (inputs_to_string (inputs b)), the (outputs_to_string (outputs b))]
          @ (if inputs b = InputType.CONTINUOUS then str_int (vision b) else []))"
  by (cases "inputs b"; cases "outputs b") (simp_all add: to_string_def tables_simps)

text \<open>
  Claim C2. For a code with CONTINUOUS input and trailing digits, \<open>from_string\<close> is said to
  set the vision to the value of the digits and to raise when that value is even, with
  \<open>"C9"\<close> giving vision 9 and \<open>"C4"\<close> an error. The source reads the digits only when the
  code is longer than two characters: \<open>"C9"\<close> and \<open>"C4"\<close> both return the default vision 15,
  and \<open>"C4"\<close> raises nothing.
\<close>

theorem from_string_shorthand_digit_ignored:
  "from_string ''C9'' =
     Inr \<lparr>inputs = InputType.CONTINUOUS, outputs = OutputType.CONTINUOUS, vision = 15,
          control = ''random'', control_data = Some Map.empty\<rparr>
   \<and> from_string ''C4'' =
     Inr \<lparr>inputs = InputType.CONTINUOUS, outputs = OutputType.CONTINUOUS, vision = 15,
          control = ''random'', control_data = Some Map.empty\<rparr>"
  by (simp add: from_string_def from_string_types_def shorthands_def isdigit_simps
      isdigit_not_isalpha BuildData_init_def)

text \<open>
  Claim C3, as stated: for every valid BuildData \<open>b\<close> whose vision is the default unless its
  inputs are CONTINUOUS, \<open>from_string(to_string(b)) == b\<close>. The code holds the input type,
  the output type and the vision only, so a BuildData with another controller than the
  default comes back with \<open>control = "random"\<close>, and is not equal to the one written.
\<close>

theorem roundtrip_control_counterexample:
  "valid_BuildData (BuildData_init\<lparr>control := ''tabular''\<rparr>)
   \<and> vision (BuildData_init\<lparr>control := ''tabular''\<rparr>) = 15
   \<and> to_string (BuildData_init\<lparr>control := ''tabular''\<rparr>) = Inr ''DD''
   \<and> from_string ''DD'' = Inr BuildData_init
   \<and> BuildData_init \<noteq> BuildData_init\<lparr>control := ''tabular''\<rparr>"
  using from_string_DD_digits[of "[]"]
  by (simp add: valid_BuildData_def to_string_eq tables_simps BuildData_init_def)

text \<open>
  Claim C3, amended: for every valid BuildData \<open>b\<close> whose vision is the default 15 when its
  inputs are DISCRETE, \<open>to_string(b)\<close> is the two type letters, each \<open>D\<close> or \<open>C\<close> and never a
  shorthand, followed by the decimal digits of the vision exactly when the inputs are
  CONTINUOUS; and \<open>from_string\<close> of that string succeeds with the inputs, outputs and vision
  of \<open>b\<close>, and with \<open>control\<close> and \<open>control_data\<close> at their defaults. The result equals \<open>b\<close>
  when \<open>b\<close> has these defaults.
\<close>

theorem to_string_from_string:
  assumes "valid_BuildData b" and "inputs b = InputType.DISCRETE \<longrightarrow> vision b = 15"
  shows "let io = [the (inputs_to_string (inputs b)), the (outputs_to_string (outputs b))];
             s = io @ (if inputs b = InputType.CONTINUOUS then str_int (vision b) else [])
         in set io \<subseteq> {CHR ''D'', CHR ''C''}
            \<and> list_all isdigit (str_int (vision b))
            \<and> to_string b = Inr s
            \<and> from_string s = Inr (b\<lparr>control := ''random'', control_data := Some Map.empty\<rparr>)
            \<and> (control b = ''random'' \<and> control_data b = Some Map.empty
                 \<longrightarrow> from_string s = Inr b)"
proof -
  let ?ic = "the (inputs_to_string (inputs b))"
  let ?oc = "the (outputs_to_string (outputs b))"
  let ?s = "[?ic, ?oc] @ (if inputs b = InputType.CONTINUOUS then str_int (vision b) else [])"
  let ?b' = "b\<lparr>control := ''random'', control_data := Some Map.empty\<rparr>"
  from assms(1) have v: "0 \<le> vision b" "vision b mod 2 = 1"
    by (simp_all add: valid_BuildData_def)
  have letters: "set [?ic, ?oc] \<subseteq> {CHR ''D'', CHR ''C''}"
    by (cases "inputs b"; cases "outputs b") (simp_all add: tables_simps)
  have oc: "?oc \<in> {CHR ''D'', CHR ''C''}" "the (string_to_output ?oc) = outputs b"
    by (cases "outputs b"; simp add: tables_simps)+
  have parse: "from_string ?s = Inr ?b'"
  proof (cases "inputs b")
    case DISCRETE
    with assms have "outputs b = OutputType.DISCRETE" and "vision b = 15"
      by (auto simp: valid_BuildData_def intro: OutputType.exhaust)
    with DISCRETE show ?thesis
      using from_string_DD_digits[of "[]"] by (simp add: tables_simps BuildData_init_def)
  next
    case CONTINUOUS
    have "from_string (CHR ''C'' # ?oc # str_int (vision b)) = Inr ?b'"
      using from_string_C_pair[OF oc(1) str_int_nonneg(1,2)[OF v(1)]] v oc(2) CONTINUOUS
      by (simp add: str_int_nonneg(3) BuildData_init_def)
    with CONTINUOUS show ?thesis by (simp add: tables_simps)
  qed
  have same: "control b = ''random'' \<and> control_data b = Some Map.empty \<longrightarrow> ?b' = b"
    by auto
  show ?thesis
    unfolding Let_def
    using letters str_int_nonneg(1)[OF v(1)] to_string_eq[of b] parse same by simp
qed

theorem to_string_from_string_witness:
  "valid_BuildData \<lparr>inputs = InputType.CONTINUOUS, outputs = OutputType.DISCRETE, vision = 9,
        control = ''tabular'', control_data = Some Map.empty\<rparr>
   \<and> to_string \<lparr>inputs = InputType.CONTINUOUS, outputs = OutputType.DISCRETE, vision = 9,
        control = ''tabular'', control_data = Some Map.empty\<rparr> = Inr ''CD9''
   \<and> from_string ''CD9'' =
       Inr \<lparr>inputs = InputType.CONTINUOUS, outputs = OutputType.DISCRETE, vision = 9,
            control = ''random'', control_data = Some Map.empty\<rparr>"
proof -
  let ?b = "\<lparr>inputs = InputType.CONTINUOUS, outputs = OutputType.DISCRETE, vision = 9,
        control = ''tabular'', control_data = Some Map.empty\<rparr>"
  have h1: "valid_BuildData ?b" by (simp add: valid_BuildData_def)
  have h2: "inputs ?b = InputType.DISCRETE \<longrightarrow> vision ?b = 15" by simp
  have s: "str_int 9 = ''9''"
    by (simp add: str_int_def str_nat.simps[of 9] digit_char_def char_of_eq_iff)
  show ?thesis
    using h1 to_string_from_string[OF h1 h2] by (simp add: Let_def tables_simps s)
qed

text \<open>
  Claim C8. \<open>from_string("DC")\<close> raises the hybrid-mode \<open>ValueError\<close>, and so does the pair
  \<open>DC\<close> followed by any digits; \<open>from_string("CD")\<close> succeeds with CONTINUOUS inputs and
  DISCRETE outputs.
\<close>

theorem from_string_hybrid_pair:
  assumes "list_all isdigit ds"
  shows "from_string ''DC'' = Inl (ValueError hybrid_msg)
     \<and> from_string (''DC'' @ ds) = Inl (ValueError hybrid_msg)
     \<and> from_string ''CD'' =
         Inr \<lparr>inputs = InputType.CONTINUOUS, outputs = OutputType.DISCRETE, vision = 15,
              control = ''random'', control_data = Some Map.empty\<rparr>"
proof -
  have "from_string ''CD'' =
      Inr \<lparr>inputs = InputType.CONTINUOUS, outputs = OutputType.DISCRETE, vision = 15,
           control = ''random'', control_data = Some Map.empty\<rparr>"
    by (simp add: from_string_def from_string_types_def isalpha_simps tables_simps
        BuildData_init_def)
  then show ?thesis
    using from_string_DC_digits[of "[]"] from_string_DC_digits[OF assms] by simp
qed

theorem from_string_hybrid_pair_witness:
  "list_all isdigit ''7'' \<and> from_string ''DC7'' = Inl (ValueError hybrid_msg)
   \<and> from_string ''DC'' = Inl (ValueError hybrid_msg)
   \<and> from_string ''CD'' =
       Inr \<lparr>inputs = InputType.CONTINUOUS, outputs = OutputType.DISCRETE, vision = 15,
            control = ''random'', control_data = Some Map.empty\<rparr>"
proof -
  have h: "list_all isdigit ''7''" by (simp add: isdigit_simps)
  show ?thesis using h from_string_hybrid_pair[OF h] by simp
qed



section \<open>Facts about the kinematics\<close>

text \<open>
  A robot that was never reset has no velocity: \<open>next_position\<close> assigns \<open>acc\<close> and then
  raises. The two claims below are about robots whose position and velocity are vectors,
  as they are from the first \<open>reset\<close> on.
\<close>

lemma next_position_before_reset:
  "next_position (Robot_init d) action dt =
     (Inl TypeError, (Robot_init d)\<lparr>acc := Some (Vec_scale ACCELERATION_SCALE action)\<rparr>)"
  by (simp add: next_position_def Robot_init_def)

text \<open>
  Claim C6. For a robot at rest, with null velocity and null acceleration, and for every
  \<open>dt\<close>, \<open>next_position\<close> with the null action returns the robot's current position.
\<close>

theorem next_position_at_rest:
  assumes "vel r = Some Vec_null" and "acc r = Some Vec_null" and "pos r = Some p"
  shows "fst (next_position r Vec_null dt) = Inr p"
  using assms
  by (simp add: next_position_def Vec_null_def Vec_scale_def Vec_add_def Vec_length_def Let_def)

theorem next_position_at_rest_witness:
  "vel (reset (\<lambda>p. (0, 0)) (Robot_init BuildData_init) (3, 4)) = Some Vec_null
   \<and> acc (reset (\<lambda>p. (0, 0)) (Robot_init BuildData_init) (3, 4)) = Some Vec_null
   \<and> pos (reset (\<lambda>p. (0, 0)) (Robot_init BuildData_init) (3, 4)) = Some (3, 4)
   \<and> fst (next_position (reset (\<lambda>p. (0, 0)) (Robot_init BuildData_init) (3, 4)) Vec_null (1 / 2))
       = Inr (3, 4)"
proof -
  let ?r = "reset (\<lambda>p. (0, 0)) (Robot_init BuildData_init) (3, 4)"
  have h1: "vel ?r = Some Vec_null" and h2: "acc ?r = Some Vec_null"
    and h3: "pos ?r = Some (3, 4)"
    by (simp_all add: reset_def)
  show ?thesis using h1 h2 h3 next_position_at_rest[OF h1 h2 h3, of "1 / 2"] by simp
qed

text \<open>
  Claim C7. For every robot state with a position \<open>(px, py)\<close> and a velocity \<open>(vx, vy)\<close>,
  every action \<open>(ax, ay)\<close> and every \<open>dt\<close>, \<open>next_position\<close> changes the fields \<open>vel\<close> and
  \<open>acc\<close> only, leaving \<open>pos\<close>, \<open>prev_cell\<close>, \<open>reward\<close> and \<open>data\<close> as they were, and returns
  \<open>pos + dt * vel'\<close>. Here \<open>acc'\<close> is \<open>ACCELERATION_SCALE * action\<close> and \<open>vel'\<close> is
  \<open>vel * (1 - INERTIAL_LOSS * dt) + dt * acc'\<close>, replaced by the null vector when its length
  is below \<open>min(0.01, ACCELERATION_SCALE / 2)\<close>.
\<close>

theorem next_position_frame:
  assumes "pos r = Some (px, py)" and "vel r = Some (vx, vy)"
  shows "let ax' = ACCELERATION_SCALE * ax;
             ay' = ACCELERATION_SCALE * ay;
             wx = vx * (1 - INERTIAL_LOSS * dt) + dt * ax';
             wy = vy * (1 - INERTIAL_LOSS * dt) + dt * ay';
             vel' = (if sqrt (wx\<^sup>2 + wy\<^sup>2) < min 0.01 (ACCELERATION_SCALE / 2)
                     then (0, 0) else (wx, wy));
             r' = snd (next_position r (ax, ay) dt)
         in fst (next_position r (ax, ay) dt) = Inr (px + dt * fst vel', py + dt * snd vel')
            \<and> r' = r\<lparr>vel := Some vel', acc := Some (ax', ay')\<rparr>
            \<and> pos r' = pos r \<and> prev_cell r' = prev_cell r \<and> reward r' = reward r
            \<and> data r' = data r"
  using assms
  by (simp add: next_position_def Vec_null_def Vec_scale_def Vec_add_def Vec_length_def
      Let_def mult.commute)

theorem next_position_frame_witness:
  "fst (next_position (reset (\<lambda>p. (0, 0)) (Robot_init BuildData_init) (3, 4)) (1, 0) 2)
     = Inr (5, 4)
   \<and> snd (next_position (reset (\<lambda>p. (0, 0)) (Robot_init BuildData_init) (3, 4)) (1, 0) 2)
     = (reset (\<lambda>p. (0, 0)) (Robot_init BuildData_init) (3, 4))
         \<lparr>vel := Some (1, 0), acc := Some (1 / 2, 0)\<rparr>"
proof -
  let ?r = "reset (\<lambda>p. (0, 0)) (Robot_init BuildData_init) (3, 4)"
  have h1: "pos ?r = Some (3, 4)" and h2: "vel ?r = Some (0, 0)"
    by (simp_all add: reset_def Vec_null_def)
  show ?thesis
    using next_position_frame[OF h1 h2, of 1 0 2]
    by (simp add: Let_def INERTIAL_LOSS_def ACCELERATION_SCALE_def power2_eq_square)
qed

section \<open>Facts about save and load\<close>


lemma reverse_map_None:
  "t \<notin> snd ` set reg \<Longrightarrow> reverse_map reg t = None"
  by (force simp: reverse_map_def map_of_eq_None_iff)

lemma reverse_map_CONTROLLERS:
  "reverse_map CONTROLLERS RandomController = Some ''random''"
  "reverse_map CONTROLLERS KeyboardController = Some ''keyboard''"
  "reverse_map CONTROLLERS TabularController = Some ''tabular''"
  by (simp_all add: reverse_map_def CONTROLLERS_def RandomController_def
      KeyboardController_def TabularController_def)

lemma zip_suffix_examples:
  "zip_suffix (Path [] [''ctrl'']) = Inr (Path [] [''ctrl.zip''])"
  "zip_suffix (Path [] [''ctrl.zip'']) = Inr (Path [] [''ctrl.zip''])"
  "zip_suffix (Path ''/'' [''tmp'', ''ctrl.pkl'']) = Inr (Path ''/'' [''tmp'', ''ctrl.zip''])"
  "zip_suffix (Str ''ctrl.zip'') = Inl AttributeError"
  by (simp_all add: zip_suffix_def with_suffix_def Path_suffix_def Path_name_def rfind_def
      Let_def)











text \<open>
  Claim C4. With the argument \<open>infos\<close> omitted, \<open>save\<close> is said to succeed and to write the
  controller's own \<open>infos\<close>. The source passes the default \<open>None\<close> to \<open>dict.update\<close>, which
  raises: whatever the registry, the controller and the path, \<open>save\<close> with \<open>infos = None\<close>
  ends in an exception, and for a registered controller and a well-formed path that
  exception is the \<open>TypeError\<close> of \<open>update\<close>.
\<close>

theorem save_infos_None_raises:
  "isl (fst (save rt controller path None fs))
   \<and> fst (save demo_runtime (demo_controller RandomController) (Path [] [''ctrl'']) None
            Map.empty) = Inl TypeError"
proof
  show "isl (fst (save rt controller path None fs))"
    by (simp add: save_def split: option.splits sum.splits prod.splits pyval.splits)
  show "fst (save demo_runtime (demo_controller RandomController) (Path [] [''ctrl'']) None
            Map.empty) = Inl TypeError"
    by (simp add: save_def demo_runtime_def demo_controller_def reverse_map_CONTROLLERS
        zip_suffix_examples)
qed




text \<open>
  Claim C10. \<open>save\<close> looks the controller's kind up by its exact class: for a controller
  whose class is a strict subclass of a registered class and is not itself a value of the
  registry, \<open>save\<close> raises the \<open>AssertionError\<close> of the unknown controller type, and writes
  nothing.
\<close>

theorem save_subclass_AssertionError:
  assumes "t \<in> snd ` set (registry rt)" and "issubclass (ctype c) t" and "ctype c \<noteq> t"
    and "ctype c \<notin> snd ` set (registry rt)"
  shows "save rt c path infos' fs = (Inl AssertionError, fs)"
  using assms(4) by (simp add: save_def reverse_map_None)

theorem save_subclass_AssertionError_witness:
  "RandomController \<in> snd ` set (registry demo_runtime)
   \<and> issubclass (Class ''MyRandom'' [RandomController]) RandomController
   \<and> Class ''MyRandom'' [RandomController] \<noteq> RandomController
   \<and> Class ''MyRandom'' [RandomController] \<notin> snd ` set (registry demo_runtime)
   \<and> save demo_runtime (demo_controller (Class ''MyRandom'' [RandomController]))
        (Path [] [''ctrl'']) (Some []) Map.empty = (Inl AssertionError, Map.empty)"
proof -
  let ?sub = "Class ''MyRandom'' [RandomController]"
  have h1: "RandomController \<in> snd ` set (registry demo_runtime)"
    by (simp add: demo_runtime_def CONTROLLERS_def)
  have h2: "issubclass (ctype (demo_controller ?sub)) RandomController"
    by (simp add: demo_controller_def RandomController_def)
  have h3: "ctype (demo_controller ?sub) \<noteq> RandomController"
    by (simp add: demo_controller_def RandomController_def)
  have h4: "ctype (demo_controller ?sub) \<notin> snd ` set (registry demo_runtime)"
    by (simp add: demo_controller_def demo_runtime_def CONTROLLERS_def RandomController_def
        KeyboardController_def TabularController_def BaseController_def)
  show ?thesis
    using h1 h2 h3 h4 save_subclass_AssertionError[OF h1 h2 h3 h4]
    by (simp add: demo_controller_def)
qed

end
